theory Spec2Isabelle
  imports Main "HOL-Library.Sublist"
begin

section \<open>Python values\<close>

text \<open>
  The script works on whatever \<^verbatim>\<open>response.json()\<close> returns, so the model starts from
  the values a JSON document parses to. A Python \<^verbatim>\<open>dict\<close> is an association list in
  insertion order whose keys are distinct; a lookup is \<^const>\<open>map_of\<close>. Python's integers are
  unbounded (\<^typ>\<open>int\<close>). A float is kept as the three observations the script can make of
  it: whether it is non-zero (its truth value), its \<^verbatim>\<open>repr\<close> and its JSON rendering.

  Text is a \<^typ>\<open>string\<close>. Case conversion and escaping are given for the ASCII range;
  a character outside it is left as it is.
\<close>

datatype pyfloat = PyFloat (float_nonzero: bool) (float_repr: string) (float_json: string)

datatype json =
    JNull
  | JBool bool
  | JInt int
  | JFloat pyfloat
  | JStr string
  | JList "json list"
  | JDict "(string \<times> json) list"

text \<open>The exceptions that reach the handlers of \<^verbatim>\<open>main\<close>, each with its \<^verbatim>\<open>str(e)\<close>.
  A \<^verbatim>\<open>RequestException\<close> also carries the text of its response, when it has one.
  \<open>OtherError\<close> stands for every other subclass of \<^verbatim>\<open>Exception\<close> the environment
  raises (an \<^verbatim>\<open>OSError\<close> of \<^verbatim>\<open>open\<close>, a \<^verbatim>\<open>UnicodeEncodeError\<close> of \<^verbatim>\<open>print\<close>).\<close>

datatype exn =
    RequestException string "string option"
  | JSONDecodeError string
  | AttributeError string
  | TypeError string
  | OtherError string

fun exn_message :: "exn \<Rightarrow> string" where
  "exn_message (RequestException m r) = m"
| "exn_message (JSONDecodeError m) = m"
| "exn_message (AttributeError m) = m"
| "exn_message (TypeError m) = m"
| "exn_message (OtherError m) = m"

fun type_name :: "json \<Rightarrow> string" where
  "type_name JNull = ''NoneType''"
| "type_name (JBool b) = ''bool''"
| "type_name (JInt i) = ''int''"
| "type_name (JFloat f) = ''float''"
| "type_name (JStr s) = ''str''"
| "type_name (JList xs) = ''list''"
| "type_name (JDict d) = ''dict''"

definition quoted :: "string \<Rightarrow> string" where
  "quoted s = [CHR 0x27] @ s @ [CHR 0x27]"

definition no_attribute :: "json \<Rightarrow> string \<Rightarrow> exn" where
  "no_attribute v a = AttributeError (quoted (type_name v) @ '' object has no attribute '' @ quoted a)"

definition no_len :: "json \<Rightarrow> exn" where
  "no_len v = TypeError (''object of type '' @ quoted (type_name v) @ '' has no len()'')"

definition not_iterable :: "json \<Rightarrow> exn" where
  "not_iterable v = TypeError (quoted (type_name v) @ '' object is not iterable'')"

subsection \<open>Truth value, length, iteration, lookup\<close>

fun truthy :: "json \<Rightarrow> bool" where
  "truthy JNull = False"
| "truthy (JBool b) = b"
| "truthy (JInt i) = (i \<noteq> 0)"
| "truthy (JFloat f) = float_nonzero f"
| "truthy (JStr s) = (s \<noteq> [])"
| "truthy (JList xs) = (xs \<noteq> [])"
| "truthy (JDict d) = (d \<noteq> [])"

fun py_len :: "json \<Rightarrow> exn + nat" where
  "py_len (JStr s) = Inr (length s)"
| "py_len (JList xs) = Inr (length xs)"
| "py_len (JDict d) = Inr (length d)"
| "py_len v = Inl (no_len v)"

text \<open>Iterating a list gives its elements, a dict its keys, a string its characters.\<close>

fun py_iter :: "json \<Rightarrow> exn + json list" where
  "py_iter (JStr s) = Inr (map (\<lambda>c. JStr [c]) s)"
| "py_iter (JList xs) = Inr xs"
| "py_iter (JDict d) = Inr (map (\<lambda>kv. JStr (fst kv)) d)"
| "py_iter v = Inl (not_iterable v)"

definition dict_get :: "(string \<times> json) list \<Rightarrow> string \<Rightarrow> json \<Rightarrow> json" where
  "dict_get d k dflt = (case map_of d k of Some v \<Rightarrow> v | None \<Rightarrow> dflt)"

subsection \<open>Strings\<close>

definition newline :: char where
  "newline = CHR 0x0A"

fun str_join :: "string \<Rightarrow> string list \<Rightarrow> string" where
  "str_join sep [] = []"
| "str_join sep [x] = x"
| "str_join sep (x # y # ys) = x @ sep @ str_join sep (y # ys)"

definition str_replace :: "char \<Rightarrow> string \<Rightarrow> string \<Rightarrow> string" where
  "str_replace old new s = concat (map (\<lambda>c. if c = old then new else [c]) s)"

definition upper_letters :: string where
  "upper_letters = ''ABCDEFGHIJKLMNOPQRSTUVWXYZ''"

definition lower_letters :: string where
  "lower_letters = ''abcdefghijklmnopqrstuvwxyz''"

definition lower_char :: "char \<Rightarrow> char" where
  "lower_char c = (case map_of (zip upper_letters lower_letters) c of Some l \<Rightarrow> l | None \<Rightarrow> c)"

definition upper_char :: "char \<Rightarrow> char" where
  "upper_char c = (case map_of (zip lower_letters upper_letters) c of Some u \<Rightarrow> u | None \<Rightarrow> c)"

definition str_lower :: "string \<Rightarrow> string" where
  "str_lower s = map lower_char s"

definition str_upper :: "string \<Rightarrow> string" where
  "str_upper s = map upper_char s"

definition digit_char :: "nat \<Rightarrow> char" where
  "digit_char n = ''0123456789abcdef'' ! n"

fun show_nat :: "nat \<Rightarrow> string" where
  "show_nat n = (if n < 10 then [digit_char n] else show_nat (n div 10) @ [digit_char (n mod 10)])"

definition show_int :: "int \<Rightarrow> string" where
  "show_int i = (if i < 0 then ''-'' @ show_nat (nat (- i)) else show_nat (nat i))"

text \<open>\<^verbatim>\<open>str(x)\<close> of a string is the string; inside a list or a dict a string is shown
  by its \<^verbatim>\<open>repr\<close>: in single quotes, or in double quotes when it holds a single quote and
  no double quote.\<close>

definition is_printable :: "char \<Rightarrow> bool" where
  "is_printable c = (32 \<le> (of_char c :: nat) \<and> (of_char c :: nat) \<noteq> 127)"

definition hex2 :: "nat \<Rightarrow> string" where
  "hex2 n = [digit_char (n div 16 mod 16), digit_char (n mod 16)]"

definition repr_quote :: "string \<Rightarrow> char" where
  "repr_quote s = (if CHR 0x27 \<in> set s \<and> CHR 0x22 \<notin> set s then CHR 0x22 else CHR 0x27)"

definition repr_char :: "char \<Rightarrow> char \<Rightarrow> string" where
  "repr_char q c =
     (if c = q \<or> c = CHR 0x5C then [CHR 0x5C, c]
      else if c = CHR 0x09 then [CHR 0x5C, CHR ''t'']
      else if c = CHR 0x0A then [CHR 0x5C, CHR ''n'']
      else if c = CHR 0x0D then [CHR 0x5C, CHR ''r'']
      else if is_printable c then [c]
      else [CHR 0x5C, CHR ''x''] @ hex2 (of_char c))"

definition repr_str :: "string \<Rightarrow> string" where
  "repr_str s = (let q = repr_quote s in [q] @ concat (map (repr_char q) s) @ [q])"

primrec py_repr :: "json \<Rightarrow> string" where
  "py_repr JNull = ''None''"
| "py_repr (JBool b) = (if b then ''True'' else ''False'')"
| "py_repr (JInt i) = show_int i"
| "py_repr (JFloat f) = float_repr f"
| "py_repr (JStr s) = repr_str s"
| "py_repr (JList xs) = ''['' @ str_join '', '' (map py_repr xs) @ '']''"
| "py_repr (JDict d) =
     ''{'' @ str_join '', '' (map (\<lambda>kv. repr_str (fst kv) @ '': '' @ snd kv) (map (map_prod id py_repr) d)) @ ''}''"

fun py_str :: "json \<Rightarrow> string" where
  "py_str (JStr s) = s"
| "py_str v = py_repr v"

subsection \<open>\<^verbatim>\<open>json.dumps(data, indent=2)\<close>\<close>

definition json_char :: "char \<Rightarrow> string" where
  "json_char c =
     (if c = CHR 0x22 \<or> c = CHR 0x5C then [CHR 0x5C, c]
      else if c = CHR 0x08 then [CHR 0x5C, CHR ''b'']
      else if c = CHR 0x0C then [CHR 0x5C, CHR ''f'']
      else if c = CHR 0x0A then [CHR 0x5C, CHR ''n'']
      else if c = CHR 0x0D then [CHR 0x5C, CHR ''r'']
      else if c = CHR 0x09 then [CHR 0x5C, CHR ''t'']
      else if 32 \<le> (of_char c :: nat) \<and> (of_char c :: nat) \<le> 126 then [c]
      else [CHR 0x5C, CHR ''u'', CHR ''0'', CHR ''0''] @ hex2 (of_char c))"

definition json_string :: "string \<Rightarrow> string" where
  "json_string s = [CHR 0x22] @ concat (map json_char s) @ [CHR 0x22]"

definition indent_at :: "nat \<Rightarrow> string" where
  "indent_at level = newline # replicate (2 * level) (CHR '' '')"

primrec dumps_at :: "json \<Rightarrow> nat \<Rightarrow> string" where
  "dumps_at JNull level = ''null''"
| "dumps_at (JBool b) level = (if b then ''true'' else ''false'')"
| "dumps_at (JInt i) level = show_int i"
| "dumps_at (JFloat f) level = float_json f"
| "dumps_at (JStr s) level = json_string s"
| "dumps_at (JList xs) level =
     (if xs = [] then ''[]''
      else ''['' @ indent_at (Suc level)
           @ str_join ('','' @ indent_at (Suc level)) (map (\<lambda>f. f (Suc level)) (map dumps_at xs))
           @ indent_at level @ '']'')"
| "dumps_at (JDict d) level =
     (if d = [] then ''{}''
      else ''{'' @ indent_at (Suc level)
           @ str_join ('','' @ indent_at (Suc level))
               (map (\<lambda>kf. json_string (fst kf) @ '': '' @ snd kf (Suc level)) (map (map_prod id dumps_at) d))
           @ indent_at level @ ''}'')"

definition json_dumps :: "json \<Rightarrow> string" where
  "json_dumps data = dumps_at data 0"

section \<open>\<^verbatim>\<open>format_timestamp\<close>\<close>

text \<open>
  A \<^verbatim>\<open>datetime\<close> as \<^verbatim>\<open>datetime.fromisoformat\<close> returns it: the calendar fields and the
  offset from UTC in minutes, when the string names one. \<^verbatim>\<open>strftime\<close> with the format
  \<^verbatim>\<open>%Y-%m-%d %H:%M:%S UTC\<close> prints the fields zero padded (the year to four digits, the
  others to two) and then the literal text \<^verbatim>\<open> UTC\<close>; it does not look at the offset.
\<close>

record datetime =
  year :: nat
  month :: nat
  day :: nat
  hour :: nat
  minute :: nat
  second :: nat
  microsecond :: nat
  utcoffset :: "int option"

definition zero_pad :: "nat \<Rightarrow> nat \<Rightarrow> string" where
  "zero_pad w n = replicate (w - length (show_nat n)) (CHR ''0'') @ show_nat n"

definition strftime :: "datetime \<Rightarrow> string" where
  "strftime dt =
     zero_pad 4 (year dt) @ ''-'' @ zero_pad 2 (month dt) @ ''-'' @ zero_pad 2 (day dt) @ '' ''
     @ zero_pad 2 (hour dt) @ '':'' @ zero_pad 2 (minute dt) @ '':'' @ zero_pad 2 (second dt)
     @ '' UTC''"

text \<open>
  The parser \<^verbatim>\<open>datetime.fromisoformat\<close> belongs to the Python library, and the strings it
  accepts differ between versions of the library. It is an argument \<open>fromisoformat\<close> of the model:
  \<open>None\<close> where the library raises \<^verbatim>\<open>ValueError\<close>.

  \<^verbatim>\<open>
  def format_timestamp(timestamp: str) -> str:
      try:
          dt = datetime.fromisoformat(timestamp.replace('Z', '+00:00'))
          return dt.strftime('%Y-%m-%d %H:%M:%S UTC')
      except:
          return timestamp
  \<close>
  The callers pass whatever value the record holds. A value that is not a string has no
  \<^verbatim>\<open>replace\<close>; the \<^verbatim>\<open>AttributeError\<close> is caught like every other exception and
  the value is returned as it came.
\<close>

type_synonym iso_parser = "string \<Rightarrow> datetime option"

fun format_timestamp :: "iso_parser \<Rightarrow> json \<Rightarrow> json" where
  "format_timestamp fromisoformat (JStr timestamp) =
     (case fromisoformat (str_replace (CHR ''Z'') ''+00:00'' timestamp) of
        Some dt \<Rightarrow> JStr (strftime dt)
      | None \<Rightarrow> JStr timestamp)"
| "format_timestamp fromisoformat v = v"

section \<open>\<^verbatim>\<open>format_conversation\<close>\<close>

definition rule80 :: "char \<Rightarrow> string" where
  "rule80 c = replicate 80 c"

definition header_lines :: "iso_parser \<Rightarrow> (string \<times> json) list \<Rightarrow> string list" where
  "header_lines fromisoformat conversation =
     [rule80 (CHR ''=''),
      ''CONVERSATION ID: '' @ py_str (dict_get conversation ''id'' (JStr ''N/A'')),
      ''Session ID: '' @ py_str (dict_get conversation ''sessionId'' (JStr ''N/A''))]
     @ (case map_of conversation ''createdAt'' of
          Some t \<Rightarrow> [''Started: '' @ py_str (format_timestamp fromisoformat t)] | None \<Rightarrow> [])
     @ (case map_of conversation ''updatedAt'' of
          Some t \<Rightarrow> [''Last Updated: '' @ py_str (format_timestamp fromisoformat t)] | None \<Rightarrow> [])
     @ (case map_of conversation ''source'' of
          Some v \<Rightarrow> [''Source: '' @ py_str v] | None \<Rightarrow> [])
     @ (case map_of conversation ''userId'' of
          Some v \<Rightarrow> [''User ID: '' @ py_str v] | None \<Rightarrow> [])
     @ [rule80 (CHR ''=''), []]"

text \<open>The message list: \<^verbatim>\<open>messages\<close>, and \<^verbatim>\<open>transcript\<close> when that is missing or
  false (empty).\<close>

definition resolve_messages :: "(string \<times> json) list \<Rightarrow> json" where
  "resolve_messages conversation =
     (let messages = dict_get conversation ''messages'' (JList [])
      in if \<not> truthy messages then dict_get conversation ''transcript'' (JList []) else messages)"

text \<open>The speaker of a role that is already in lower case.\<close>

definition speaker_of :: "string \<Rightarrow> string" where
  "speaker_of role =
     (if role \<in> set [''user'', ''human''] then ''USER''
      else if role \<in> set [''assistant'', ''bot'', ''ai'', ''agent''] then ''BOT''
      else str_upper role)"

text \<open>\<^verbatim>\<open>message.get('role', message.get('sender', 'unknown')).lower()\<close>: a message that is
  not a dict has no \<^verbatim>\<open>get\<close>, a role that is not a string has no \<^verbatim>\<open>lower\<close>.\<close>

fun message_role :: "json \<Rightarrow> exn + string" where
  "message_role (JDict message) =
     (case dict_get message ''role'' (dict_get message ''sender'' (JStr ''unknown'')) of
        JStr r \<Rightarrow> Inr (str_lower r)
      | v \<Rightarrow> Inl (no_attribute v ''lower''))"
| "message_role v = Inl (no_attribute v ''get'')"

definition message_timestamp :: "iso_parser \<Rightarrow> (string \<times> json) list \<Rightarrow> string" where
  "message_timestamp fromisoformat message =
     (case map_of message ''createdAt'' of
        Some t \<Rightarrow> '' ['' @ py_str (format_timestamp fromisoformat t) @ '']''
      | None \<Rightarrow>
          (case map_of message ''timestamp'' of
             Some t \<Rightarrow> '' ['' @ py_str (format_timestamp fromisoformat t) @ '']''
           | None \<Rightarrow> []))"

definition message_content :: "(string \<times> json) list \<Rightarrow> json" where
  "message_content message =
     dict_get message ''content'' (dict_get message ''message'' (dict_get message ''text'' (JStr [])))"

fun message_lines :: "iso_parser \<Rightarrow> json \<Rightarrow> exn + string list" where
  "message_lines fromisoformat (JDict message) =
     (case message_role (JDict message) of
        Inl e \<Rightarrow> Inl e
      | Inr role \<Rightarrow>
          Inr ([[newline] @ ''['' @ speaker_of role @ '']'' @ message_timestamp fromisoformat message,
                py_str (message_content message)]
               @ (case map_of message ''feedback'' of
                    Some f \<Rightarrow> [''  Feedback: '' @ py_str f] | None \<Rightarrow> [])))"
| "message_lines fromisoformat v = Inl (no_attribute v ''get'')"

fun messages_loop :: "iso_parser \<Rightarrow> json list \<Rightarrow> exn + string list" where
  "messages_loop fromisoformat [] = Inr []"
| "messages_loop fromisoformat (message # rest) =
     (case message_lines fromisoformat message of
        Inl e \<Rightarrow> Inl e
      | Inr ls \<Rightarrow> (case messages_loop fromisoformat rest of Inl e \<Rightarrow> Inl e | Inr later \<Rightarrow> Inr (ls @ later)))"

definition transcript_lines :: "iso_parser \<Rightarrow> json \<Rightarrow> exn + string list" where
  "transcript_lines fromisoformat messages =
     (if truthy messages then
        (case py_iter messages of
           Inl e \<Rightarrow> Inl e
         | Inr ms \<Rightarrow>
             (case messages_loop fromisoformat ms of
                Inl e \<Rightarrow> Inl e
              | Inr ls \<Rightarrow> Inr ([''TRANSCRIPT:'', rule80 (CHR ''-'')] @ ls @ [rule80 (CHR ''-'')])))
      else Inr [''No transcript available.''])"

text \<open>The list \<^verbatim>\<open>lines\<close> that \<^verbatim>\<open>format_conversation\<close> builds, and its result, the lines
  joined by newlines. A conversation that is not a dict has no \<^verbatim>\<open>get\<close>.\<close>

fun conversation_lines :: "iso_parser \<Rightarrow> json \<Rightarrow> exn + string list" where
  "conversation_lines fromisoformat (JDict conversation) =
     (case transcript_lines fromisoformat (resolve_messages conversation) of
        Inl e \<Rightarrow> Inl e
      | Inr ls \<Rightarrow> Inr (header_lines fromisoformat conversation @ ls @ [[], []]))"
| "conversation_lines fromisoformat v = Inl (no_attribute v ''get'')"

definition format_conversation :: "iso_parser \<Rightarrow> json \<Rightarrow> exn + string" where
  "format_conversation fromisoformat conversation =
     (case conversation_lines fromisoformat conversation of
        Inl e \<Rightarrow> Inl e
      | Inr ls \<Rightarrow> Inr (str_join [newline] ls))"

section \<open>\<^verbatim>\<open>main\<close>\<close>

subsection \<open>From the parsed body to the output lines\<close>

text \<open>
  \<^verbatim>\<open>
  conversations = []
  if isinstance(data, dict):
      if 'conversations' in data:   conversations = data['conversations']
      elif 'data' in data:          conversations = data['data']
      else:                         conversations = [data]
  elif isinstance(data, list):
      conversations = data
  \<close>
  The value under the key is taken as it is, whatever its type.
\<close>

fun conversations_of :: "json \<Rightarrow> json" where
  "conversations_of (JDict d) =
     (case map_of d ''conversations'' of
        Some v \<Rightarrow> v
      | None \<Rightarrow> (case map_of d ''data'' of Some v \<Rightarrow> v | None \<Rightarrow> JList [JDict d]))"
| "conversations_of (JList xs) = JList xs"
| "conversations_of v = JList []"

definition found_header :: "nat \<Rightarrow> string" where
  "found_header n =
     [newline] @ rule80 (CHR ''='') @ [newline] @ ''FOUND '' @ show_nat n @ '' CONVERSATION(S)''
     @ [newline] @ rule80 (CHR ''='') @ [newline]"

definition conv_header :: "nat \<Rightarrow> nat \<Rightarrow> string" where
  "conv_header idx n =
     [newline] @ rule80 (CHR ''#'') @ [newline] @ ''CONVERSATION #'' @ show_nat idx @ '' of ''
     @ show_nat n @ [newline] @ rule80 (CHR ''#'') @ [newline]"

fun conversation_blocks :: "iso_parser \<Rightarrow> nat \<Rightarrow> nat \<Rightarrow> json list \<Rightarrow> exn + string list" where
  "conversation_blocks fromisoformat idx n [] = Inr []"
| "conversation_blocks fromisoformat idx n (conversation # rest) =
     (case format_conversation fromisoformat conversation of
        Inl e \<Rightarrow> Inl e
      | Inr block \<Rightarrow>
          (case conversation_blocks fromisoformat (Suc idx) n rest of
             Inl e \<Rightarrow> Inl e
           | Inr later \<Rightarrow> Inr (conv_header idx n # block # later)))"

definition no_conversations_notice :: string where
  "no_conversations_notice = [newline] @ ''No conversations found for the specified date range.''"

definition raw_response_header :: string where
  "raw_response_header = [newline] @ ''Raw API Response:''"

definition output_lines :: "iso_parser \<Rightarrow> json \<Rightarrow> exn + string list" where
  "output_lines fromisoformat data =
     (let conversations = conversations_of data
      in if truthy conversations then
           (case py_len conversations of
              Inl e \<Rightarrow> Inl e
            | Inr n \<Rightarrow>
                (case py_iter conversations of
                   Inl e \<Rightarrow> Inl e
                 | Inr cs \<Rightarrow>
                     (case conversation_blocks fromisoformat 1 n cs of
                        Inl e \<Rightarrow> Inl e
                      | Inr blocks \<Rightarrow> Inr (found_header n # blocks))))
         else Inr [no_conversations_notice, raw_response_header, json_dumps data])"

definition output_text :: "iso_parser \<Rightarrow> json \<Rightarrow> exn + string" where
  "output_text fromisoformat data =
     (case output_lines fromisoformat data of Inl e \<Rightarrow> Inl e | Inr ls \<Rightarrow> Inr (str_join [newline] ls))"

subsection \<open>The environment and the effects\<close>

text \<open>
  What the script cannot decide itself comes from the environment: what \<^verbatim>\<open>requests.get\<close>
  returns or raises, whether \<^verbatim>\<open>raise_for_status\<close> raises on the response, what
  \<^verbatim>\<open>response.json()\<close> returns or raises, and whether \<^verbatim>\<open>open\<close>, the writing of
  the file or the \<^verbatim>\<open>print\<close> of the \<^verbatim>\<open>try\<close> block raises. A failure to write comes
  with the contents the file is left with: \<^verbatim>\<open>open\<close> has created or emptied the file by
  then, and none, a part or all of the text may have reached it. (The JSON error of the \<^verbatim>\<open>requests\<close> library is both a
  \<^verbatim>\<open>RequestException\<close> and a \<^verbatim>\<open>JSONDecodeError\<close>; the environment raises it as the former,
  whose handler comes first.)

  The effects are the strings passed to \<^verbatim>\<open>print\<close>, one entry for each call, the
  exceptions whose trace \<^verbatim>\<open>traceback.print_exc\<close> printed, and the contents of the files.
\<close>

record response =
  status_error :: "exn option"
  resp_text :: string
  resp_json :: "exn + json"

record env =
  get_result :: "exn + response"
  open_error :: "exn option"
  write_error :: "(exn \<times> string) option"
  print_error :: "exn option"

record world =
  stdout :: "string list"
  tracebacks :: "exn list"
  files :: "string \<Rightarrow> string option"

definition py_print :: "env \<Rightarrow> string \<Rightarrow> world \<Rightarrow> world \<times> exn option" where
  "py_print env s w =
     (case print_error env of
        Some e \<Rightarrow> (w, Some e)
      | None \<Rightarrow> (w\<lparr>stdout := stdout w @ [s]\<rparr>, None))"

definition check_mark :: string where
  "check_mark = [CHR 0xE2, CHR 0x9C, CHR 0x93]"

definition saved_message :: "string \<Rightarrow> string" where
  "saved_message output_file = [newline] @ check_mark @ '' Formatted transcripts saved to: '' @ output_file"

text \<open>
  \<^verbatim>\<open>
  if output_file:
      with open(output_file, 'w', encoding='utf-8') as f:
          f.write(output_text)
      print(f"\n... Formatted transcripts saved to: {output_file}")
  else:
      print(output_text)
  \<close>
  \<^verbatim>\<open>if output_file\<close> is false for \<^verbatim>\<open>None\<close> and for the empty string. When \<^verbatim>\<open>open\<close>
  raises, the file is as it was. When \<^verbatim>\<open>f.write\<close> or the closing of the file raises (a
  character that cannot be encoded, a full disk), the file that \<^verbatim>\<open>open\<close> has emptied
  holds what was written until then, and the confirmation line is not reached.
\<close>

definition write_output :: "env \<Rightarrow> string option \<Rightarrow> string \<Rightarrow> world \<Rightarrow> world \<times> exn option" where
  "write_output env output_file out w =
     (case output_file of
        None \<Rightarrow> py_print env out w
      | Some path \<Rightarrow>
          if path = [] then py_print env out w
          else
            (case open_error env of
               Some e \<Rightarrow> (w, Some e)
             | None \<Rightarrow>
                 (case write_error env of
                    Some (e, written) \<Rightarrow> (w\<lparr>files := (files w)(path \<mapsto> written)\<rparr>, Some e)
                  | None \<Rightarrow>
                      py_print env (saved_message path) (w\<lparr>files := (files w)(path \<mapsto> out)\<rparr>))))"

definition try_body :: "iso_parser \<Rightarrow> env \<Rightarrow> string option \<Rightarrow> world \<Rightarrow> world \<times> response option \<times> exn option" where
  "try_body fromisoformat env output_file w =
     (case get_result env of
        Inl e \<Rightarrow> (w, None, Some e)
      | Inr response \<Rightarrow>
          (case status_error response of
             Some e \<Rightarrow> (w, Some response, Some e)
           | None \<Rightarrow>
               (case resp_json response of
                  Inl e \<Rightarrow> (w, Some response, Some e)
                | Inr data \<Rightarrow>
                    (case output_text fromisoformat data of
                       Inl e \<Rightarrow> (w, Some response, Some e)
                     | Inr out \<Rightarrow>
                         (case write_output env output_file out w of
                            (w', r) \<Rightarrow> (w', Some response, r))))))"

text \<open>The three handlers, in the order of the source. The second prints the response text
  when \<^verbatim>\<open>response\<close> is bound, that is when \<^verbatim>\<open>requests.get\<close> returned.\<close>

fun handle_exn :: "exn \<Rightarrow> response option \<Rightarrow> world \<Rightarrow> world" where
  "handle_exn (RequestException m r) resp w =
     w\<lparr>stdout := stdout w @
        [''Error fetching conversations: '' @ m
         @ (case r of Some t \<Rightarrow> [newline] @ ''Response: '' @ t | None \<Rightarrow> [])]\<rparr>"
| "handle_exn (JSONDecodeError m) resp w =
     w\<lparr>stdout := stdout w @ [''Error parsing JSON response: '' @ m]
        @ (case resp of Some r \<Rightarrow> [''Raw response: '' @ resp_text r] | None \<Rightarrow> [])\<rparr>"
| "handle_exn e resp w =
     w\<lparr>stdout := stdout w @ [''Unexpected error: '' @ exn_message e],
       tracebacks := tracebacks w @ [e]\<rparr>"

text \<open>\<^verbatim>\<open>main\<close> returns the world it leaves and the exit status of the process: 0 when the
  \<^verbatim>\<open>try\<close> block ends, 1 from the \<^verbatim>\<open>sys.exit(1)\<close> of a handler.\<close>

definition main :: "iso_parser \<Rightarrow> env \<Rightarrow> string option \<Rightarrow> world \<Rightarrow> world \<times> int" where
  "main fromisoformat env output_file w =
     (case try_body fromisoformat env output_file w of
        (w', resp, None) \<Rightarrow> (w', 0)
      | (w', resp, Some e) \<Rightarrow> (handle_exn e resp w', 1))"

text \<open>\<^verbatim>\<open>output_file = sys.argv[1] if len(sys.argv) > 1 else None\<close>\<close>

definition script :: "iso_parser \<Rightarrow> env \<Rightarrow> string list \<Rightarrow> world \<Rightarrow> world \<times> int" where
  "script fromisoformat env argv w =
     main fromisoformat env (if length argv > 1 then Some (argv ! 1) else None) w"

subsection \<open>A reference parser for the plain forms\<close>

text \<open>
  Every version of \<^verbatim>\<open>datetime.fromisoformat\<close> accepts the forms \<^verbatim>\<open>YYYY-MM-DD\<close>,
  \<^verbatim>\<open>YYYY-MM-DDTHH:MM:SS\<close> and \<^verbatim>\<open>YYYY-MM-DDTHH:MM:SS+HH:MM\<close> (the separator a
  \<^verbatim>\<open>T\<close> or a space, the sign of the offset \<^verbatim>\<open>+\<close> or \<^verbatim>\<open>-\<close>) when the fields name a
  date of the calendar and a time of the day, and returns those fields.
  \<open>fromisoformat_core\<close> is the library on these forms. On any other string it gives
  \<open>None\<close>, where a version of the library may accept more: it serves as a concrete parser
  for examples, and the properties below are stated for any parser.
\<close>

definition digit_value :: "char \<Rightarrow> nat option" where
  "digit_value c =
     map_of [(CHR ''0'', 0), (CHR ''1'', 1), (CHR ''2'', 2), (CHR ''3'', 3), (CHR ''4'', 4),
             (CHR ''5'', 5), (CHR ''6'', 6), (CHR ''7'', 7), (CHR ''8'', 8), (CHR ''9'', 9)] c"

fun digits_from :: "nat \<Rightarrow> string \<Rightarrow> nat option" where
  "digits_from acc [] = Some acc"
| "digits_from acc (c # cs) =
     (case digit_value c of None \<Rightarrow> None | Some d \<Rightarrow> digits_from (10 * acc + d) cs)"

definition parse_digits :: "nat \<Rightarrow> string \<Rightarrow> nat option" where
  "parse_digits w s = (if length s = w then digits_from 0 s else None)"

definition leap_year :: "nat \<Rightarrow> bool" where
  "leap_year y = (y mod 4 = 0 \<and> (y mod 100 \<noteq> 0 \<or> y mod 400 = 0))"

definition days_in_month :: "nat \<Rightarrow> nat \<Rightarrow> nat" where
  "days_in_month y m =
     (if m = 2 then (if leap_year y then 29 else 28)
      else if m = 4 \<or> m = 6 \<or> m = 9 \<or> m = 11 then 30 else 31)"

definition valid_date :: "nat \<Rightarrow> nat \<Rightarrow> nat \<Rightarrow> bool" where
  "valid_date y m d = (1 \<le> y \<and> y \<le> 9999 \<and> 1 \<le> m \<and> m \<le> 12 \<and> 1 \<le> d \<and> d \<le> days_in_month y m)"

definition valid_time :: "nat \<Rightarrow> nat \<Rightarrow> nat \<Rightarrow> bool" where
  "valid_time h mi s = (h < 24 \<and> mi < 60 \<and> s < 60)"

definition parse_date :: "string \<Rightarrow> (nat \<times> nat \<times> nat) option" where
  "parse_date s =
     (if length s = 10 \<and> s ! 4 = CHR ''-'' \<and> s ! 7 = CHR ''-'' then
        (case parse_digits 4 (take 4 s) of
           None \<Rightarrow> None
         | Some y \<Rightarrow>
             (case parse_digits 2 (take 2 (drop 5 s)) of
                None \<Rightarrow> None
              | Some m \<Rightarrow>
                  (case parse_digits 2 (drop 8 s) of
                     None \<Rightarrow> None
                   | Some d \<Rightarrow> if valid_date y m d then Some (y, m, d) else None)))
      else None)"

definition parse_time :: "string \<Rightarrow> (nat \<times> nat \<times> nat) option" where
  "parse_time s =
     (if length s = 8 \<and> s ! 2 = CHR '':'' \<and> s ! 5 = CHR '':'' then
        (case parse_digits 2 (take 2 s) of
           None \<Rightarrow> None
         | Some h \<Rightarrow>
             (case parse_digits 2 (take 2 (drop 3 s)) of
                None \<Rightarrow> None
              | Some mi \<Rightarrow>
                  (case parse_digits 2 (drop 6 s) of
                     None \<Rightarrow> None
                   | Some sec \<Rightarrow> if valid_time h mi sec then Some (h, mi, sec) else None)))
      else None)"

definition parse_offset :: "string \<Rightarrow> int option" where
  "parse_offset s =
     (if length s = 6 \<and> (s ! 0 = CHR ''+'' \<or> s ! 0 = CHR ''-'') \<and> s ! 3 = CHR '':'' then
        (case parse_digits 2 (take 2 (drop 1 s)) of
           None \<Rightarrow> None
         | Some h \<Rightarrow>
             (case parse_digits 2 (drop 4 s) of
                None \<Rightarrow> None
              | Some mi \<Rightarrow>
                  if h < 24 \<and> mi < 60
                  then Some ((if s ! 0 = CHR ''-'' then - 1 else 1) * int (60 * h + mi))
                  else None))
      else None)"

definition fromisoformat_core :: iso_parser where
  "fromisoformat_core s =
     (case parse_date (take 10 s) of
        None \<Rightarrow> None
      | Some (y, m, d) \<Rightarrow>
          if length s = 10 then
            Some \<lparr>year = y, month = m, day = d, hour = 0, minute = 0, second = 0,
                  microsecond = 0, utcoffset = None\<rparr>
          else if s ! 10 = CHR ''T'' \<or> s ! 10 = CHR '' '' then
            (case parse_time (take 8 (drop 11 s)) of
               None \<Rightarrow> None
             | Some (h, mi, sec) \<Rightarrow>
                 if length s = 19 then
                   Some \<lparr>year = y, month = m, day = d, hour = h, minute = mi, second = sec,
                         microsecond = 0, utcoffset = None\<rparr>
                 else
                   (case parse_offset (drop 19 s) of
                      None \<Rightarrow> None
                    | Some off \<Rightarrow>
                        Some \<lparr>year = y, month = m, day = d, hour = h, minute = mi, second = sec,
                              microsecond = 0, utcoffset = Some off\<rparr>))
          else None)"





definition is_ascii :: "string \<Rightarrow> bool" where
  "is_ascii s = list_all (\<lambda>c. (of_char c :: nat) < 128) s"




text \<open>Sample surroundings for the examples: a world with nothing printed and no file, and
  an environment whose request is answered with a given body and in which no output
  operation raises.\<close>

definition world0 :: world where
  "world0 = \<lparr>stdout = [], tracebacks = [], files = Map.empty\<rparr>"

definition serving :: "json \<Rightarrow> env" where
  "serving body =
     \<lparr>get_result = Inr \<lparr>status_error = None, resp_text = json_dumps body, resp_json = Inr body\<rparr>,
      open_error = None, write_error = None, print_error = None\<rparr>"



section \<open>Properties\<close>

subsection \<open>Normalisation of the parsed body\<close>

text \<open>
  C3. The conversation sequence is found by this precedence: a mapping with a
  \<^verbatim>\<open>conversations\<close> key gives that key's value (whether or not a \<^verbatim>\<open>data\<close> key is there
  too); otherwise a mapping with a \<^verbatim>\<open>data\<close> key gives that key's value; otherwise a
  mapping gives the one-element sequence holding the mapping itself; a sequence gives
  itself.
\<close>

theorem conversations_of_precedence:
  "(map_of d ''conversations'' = Some v \<longrightarrow> conversations_of (JDict d) = v)
   \<and> (map_of d ''conversations'' = None \<and> map_of d ''data'' = Some v \<longrightarrow> conversations_of (JDict d) = v)
   \<and> (map_of d ''conversations'' = None \<and> map_of d ''data'' = None
        \<longrightarrow> conversations_of (JDict d) = JList [JDict d])
   \<and> conversations_of (JList xs) = JList xs"
  by simp

theorem conversations_of_precedence_witness:
  "conversations_of (JDict [(''data'', JList [JInt 1]), (''conversations'', JList [JInt 2])]) = JList [JInt 2]
   \<and> conversations_of (JDict [(''data'', JList [JInt 1])]) = JList [JInt 1]
   \<and> conversations_of (JDict [(''id'', JStr ''c1'')]) = JList [JDict [(''id'', JStr ''c1'')]]
   \<and> conversations_of (JList [JDict [(''id'', JStr ''c1'')]]) = JList [JDict [(''id'', JStr ''c1'')]]"
  using conversations_of_precedence [of "[(''data'', JList [JInt 1]), (''conversations'', JList [JInt 2])]" "JList [JInt 2]"]
    conversations_of_precedence [of "[(''data'', JList [JInt 1])]" "JList [JInt 1]"]
    conversations_of_precedence [of "[(''id'', JStr ''c1'')]" _ "[JDict [(''id'', JStr ''c1'')]]"]
  by simp

subsection \<open>The speaker label\<close>

lemma upper_lower_char: "upper_char (lower_char c) = upper_char c"
  by (simp add: upper_char_def lower_char_def upper_letters_def lower_letters_def)

lemma str_upper_lower: "str_upper (str_lower s) = str_upper s"
  by (simp add: str_upper_def str_lower_def upper_lower_char)

text \<open>
  C8. The role of a message is the string under \<^verbatim>\<open>role\<close>, else the string under
  \<^verbatim>\<open>sender\<close>, else \<^verbatim>\<open>unknown\<close>, in lower case. The speaker label on the message's first
  line is \<^verbatim>\<open>USER\<close> for \<^verbatim>\<open>user\<close> and \<^verbatim>\<open>human\<close>, \<^verbatim>\<open>BOT\<close> for \<^verbatim>\<open>assistant\<close>,
  \<^verbatim>\<open>bot\<close>, \<^verbatim>\<open>ai\<close> and \<^verbatim>\<open>agent\<close>, and the role in upper case for any other role;
  for ASCII text that is the original string in upper case.
\<close>

theorem speaker_label:
  "(map_of m ''role'' = Some (JStr r)
      \<or> map_of m ''role'' = None \<and> map_of m ''sender'' = Some (JStr r)
      \<or> map_of m ''role'' = None \<and> map_of m ''sender'' = None \<and> r = ''unknown''
    \<longrightarrow> message_role (JDict m) = Inr (str_lower r)
        \<and> (\<exists>rest. message_lines fromisoformat (JDict m) =
              Inr (([newline] @ ''['' @ speaker_of (str_lower r) @ '']'' @ message_timestamp fromisoformat m) # rest)))
   \<and> speaker_of (str_lower r) =
       (if str_lower r = ''user'' \<or> str_lower r = ''human'' then ''USER''
        else if str_lower r = ''assistant'' \<or> str_lower r = ''bot'' \<or> str_lower r = ''ai''
                \<or> str_lower r = ''agent'' then ''BOT''
        else str_upper (str_lower r))
   \<and> (is_ascii r \<longrightarrow> str_upper (str_lower r) = str_upper r)"
proof -
  have role: "message_role (JDict m) = Inr (str_lower r)"
    if "map_of m ''role'' = Some (JStr r)
      \<or> map_of m ''role'' = None \<and> map_of m ''sender'' = Some (JStr r)
      \<or> map_of m ''role'' = None \<and> map_of m ''sender'' = None \<and> r = ''unknown''"
    using that by (auto simp: dict_get_def)
  have label: "speaker_of (str_lower r) =
       (if str_lower r = ''user'' \<or> str_lower r = ''human'' then ''USER''
        else if str_lower r = ''assistant'' \<or> str_lower r = ''bot'' \<or> str_lower r = ''ai''
                \<or> str_lower r = ''agent'' then ''BOT''
        else str_upper (str_lower r))"
    by (simp add: speaker_of_def)
  show ?thesis
    using role label by (simp add: str_upper_lower del: message_role.simps)
qed

theorem speaker_label_witness:
  "message_role (JDict [(''role'', JStr ''Human''), (''sender'', JStr ''bot'')]) = Inr ''human''
   \<and> speaker_of ''human'' = ''USER''
   \<and> message_role (JDict [(''sender'', JStr ''bot'')]) = Inr ''bot''
   \<and> speaker_of ''bot'' = ''BOT''
   \<and> message_role (JDict [(''role'', JStr ''moderator'')]) = Inr ''moderator''
   \<and> speaker_of ''moderator'' = ''MODERATOR''
   \<and> message_role (JDict [(''content'', JStr ''hi'')]) = Inr ''unknown''
   \<and> speaker_of ''unknown'' = ''UNKNOWN''
   \<and> is_ascii ''Human'' \<and> str_upper (str_lower ''Human'') = str_upper ''Human''"
  using speaker_label [of "[(''role'', JStr ''Human''), (''sender'', JStr ''bot'')]" "''Human''" fromisoformat_core]
    speaker_label [of "[(''sender'', JStr ''bot'')]" "''bot''" fromisoformat_core]
    speaker_label [of "[(''role'', JStr ''moderator'')]" "''moderator''" fromisoformat_core]
    speaker_label [of "[(''content'', JStr ''hi'')]" "''unknown''" fromisoformat_core]
  by (simp add: is_ascii_def str_lower_def str_upper_def lower_char_def upper_char_def
      upper_letters_def lower_letters_def
      del: message_role.simps message_lines.simps)

subsection \<open>A conversation without messages\<close>






subsection \<open>Which of \<^verbatim>\<open>messages\<close> and \<^verbatim>\<open>transcript\<close> is read\<close>









subsection \<open>Bodies without conversations\<close>












subsection \<open>Exit status, failures and the output file\<close>









text \<open>
  The other failure after \<^verbatim>\<open>open\<close>: when the writing raises before anything has reached
  the file, the file that held an earlier text is left empty, the confirmation line is
  not printed and the status is 1.
\<close>

lemma write_failure_empties_file:
  "main fromisoformat_core
     ((serving (JList []))\<lparr>write_error := Some (OtherError ''cannot encode character'', [])\<rparr>)
     (Some ''out.txt'') (world0\<lparr>files := Map.empty(''out.txt'' \<mapsto> ''earlier text'')\<rparr>)
   = (\<lparr>stdout = [''Unexpected error: cannot encode character''],
       tracebacks = [OtherError ''cannot encode character''],
       files = Map.empty(''out.txt'' \<mapsto> [])\<rparr>, 1)"
  by (simp add: main_def try_body_def serving_def world0_def output_text_def output_lines_def
        write_output_def)

text \<open>
  C7. The script called with one argument runs \<^verbatim>\<open>main\<close> with that argument as the
  output file, and without an argument with none. A run with an output file that ends with
  status 0 writes to the file the very text that the run without the argument, in the same
  environment, prints; what it prints itself is the confirmation line, which ends with the
  name of the file. (An empty string names no file: \<^verbatim>\<open>if output_file\<close> is false for
  it.)
\<close>

theorem file_output_matches_stdout:
  "script p env [prog] w = main p env None w
   \<and> script p env [prog, path] w = main p env (Some path) w
   \<and> (path \<noteq> [] \<and> snd (main p env (Some path) w) = 0 \<longrightarrow>
        (\<exists>out. main p env None w = (w\<lparr>stdout := stdout w @ [out]\<rparr>, 0)
           \<and> main p env (Some path) w =
               (w\<lparr>files := (files w)(path \<mapsto> out), stdout := stdout w @ [saved_message path]\<rparr>, 0))
        \<and> suffix path (saved_message path))"
proof -
  have run: "(\<exists>out. main p env None w = (w\<lparr>stdout := stdout w @ [out]\<rparr>, 0)
           \<and> main p env (Some path) w =
               (w\<lparr>files := (files w)(path \<mapsto> out), stdout := stdout w @ [saved_message path]\<rparr>, 0))
        \<and> suffix path (saved_message path)"
    if "path \<noteq> [] \<and> snd (main p env (Some path) w) = 0"
    using that
    by (auto simp: main_def try_body_def write_output_def py_print_def saved_message_def suffix_def
        split: sum.splits option.splits prod.splits if_splits)
  have args: "script p env [prog] w = main p env None w"
    "script p env [prog, path] w = main p env (Some path) w"
    by (simp_all add: script_def)
  show ?thesis using run args by blast
qed

theorem file_output_matches_stdout_witness:
  "''out.txt'' \<noteq> []
   \<and> snd (main fromisoformat_core (serving (JList [JDict [(''id'', JStr ''c1'')]])) (Some ''out.txt'') world0) = 0
   \<and> files (fst (main fromisoformat_core (serving (JList [JDict [(''id'', JStr ''c1'')]])) (Some ''out.txt'') world0))
        ''out.txt''
       = Some (found_header 1 @ [newline] @ conv_header 1 1 @ [newline]
               @ str_join [newline] [rule80 (CHR ''=''), ''CONVERSATION ID: c1'', ''Session ID: N/A'',
                                    rule80 (CHR ''=''), [], ''No transcript available.'', [], []])
   \<and> stdout (fst (main fromisoformat_core (serving (JList [JDict [(''id'', JStr ''c1'')]])) None world0))
       = [found_header 1 @ [newline] @ conv_header 1 1 @ [newline]
               @ str_join [newline] [rule80 (CHR ''=''), ''CONVERSATION ID: c1'', ''Session ID: N/A'',
                                    rule80 (CHR ''=''), [], ''No transcript available.'', [], []]]
   \<and> stdout (fst (main fromisoformat_core (serving (JList [JDict [(''id'', JStr ''c1'')]])) (Some ''out.txt'') world0))
       = [saved_message ''out.txt'']"
  using file_output_matches_stdout [of fromisoformat_core
      "serving (JList [JDict [(''id'', JStr ''c1'')]])" _ world0 "''out.txt''"]
  by (simp add: main_def try_body_def serving_def world0_def output_text_def
        output_lines_def format_conversation_def transcript_lines_def resolve_messages_def dict_get_def
        header_lines_def write_output_def py_print_def)

subsection \<open>Timestamps\<close>































subsection \<open>Two runs of the whole formatter\<close>

text \<open>
  The scenario of the specification: one conversation with a message of the user that has
  a timestamp and an answer of the assistant that has none.
\<close>

lemma round_trip_scenario:
  "conversation_lines fromisoformat_core
     (JDict [(''id'', JStr ''c1''), (''sessionId'', JStr ''s1''),
             (''messages'', JList
                [JDict [(''role'', JStr ''user''), (''content'', JStr ''hi''),
                        (''timestamp'', JStr ''2025-11-04T10:00:00Z'')],
                 JDict [(''role'', JStr ''assistant''), (''content'', JStr ''hello'')]])])
   = Inr [rule80 (CHR ''=''), ''CONVERSATION ID: c1'', ''Session ID: s1'', rule80 (CHR ''=''), [],
          ''TRANSCRIPT:'', rule80 (CHR ''-''),
          [newline] @ ''[USER] [2025-11-04 10:00:00 UTC]'', ''hi'',
          [newline] @ ''[BOT]'', ''hello'',
          rule80 (CHR ''-''), [], []]"
proof -
  have t: "format_timestamp fromisoformat_core (JStr ''2025-11-04T10:00:00Z'') = JStr ''2025-11-04 10:00:00 UTC''"
    by (simp add: str_replace_def fromisoformat_core_def parse_date_def parse_time_def parse_offset_def
        parse_digits_def digit_value_def valid_date_def valid_time_def days_in_month_def leap_year_def
        strftime_def zero_pad_def digit_char_def)
  show ?thesis
    by (simp add: t transcript_lines_def resolve_messages_def dict_get_def header_lines_def
        message_timestamp_def message_content_def speaker_of_def str_lower_def lower_char_def
        upper_letters_def lower_letters_def del: format_timestamp.simps)
qed

text \<open>
  \<^verbatim>\<open>strftime\<close> prints the clock fields as they were parsed: a timestamp with an offset
  other than zero keeps its own time of day before the suffix \<^verbatim>\<open>UTC\<close>.
\<close>

lemma offset_is_not_converted:
  "format_timestamp fromisoformat_core (JStr ''2025-11-04T10:00:00+05:00'') = JStr ''2025-11-04 10:00:00 UTC''"
  by (simp add: str_replace_def fromisoformat_core_def parse_date_def parse_time_def parse_offset_def
      parse_digits_def digit_value_def valid_date_def valid_time_def days_in_month_def leap_year_def
      strftime_def zero_pad_def digit_char_def)

end
